theory Spec2Isabelle
  imports Main "HOL-Library.Sublist"
begin

section \<open>Python strings\<close>

text \<open>
  A Python \<open>str\<close> is modelled by its UTF-8 encoding: a \<open>string\<close> whose characters are the
  bytes. ASCII text is one byte per character, as in a literal \<open>''abc''\<close>. Strings with lone
  surrogates have no UTF-8 encoding and are outside the model.
\<close>

text \<open>
  The characters \<open>str.strip()\<close> removes (those with \<open>str.isspace()\<close> true), each in UTF-8:
  U+0009..U+000D, U+001C..U+0020, U+0085, U+00A0, U+1680, U+2000..U+200A, U+2028, U+2029,
  U+202F, U+205F, U+3000.
\<close>

definition unicode_ws :: "string list" where
  "unicode_ws =
     [[CHR 0x09], [CHR 0x0A], [CHR 0x0B], [CHR 0x0C], [CHR 0x0D],
      [CHR 0x1C], [CHR 0x1D], [CHR 0x1E], [CHR 0x1F], [CHR 0x20],
      [CHR 0xC2, CHR 0x85], [CHR 0xC2, CHR 0xA0],
      [CHR 0xE1, CHR 0x9A, CHR 0x80],
      [CHR 0xE2, CHR 0x80, CHR 0x80], [CHR 0xE2, CHR 0x80, CHR 0x81],
      [CHR 0xE2, CHR 0x80, CHR 0x82], [CHR 0xE2, CHR 0x80, CHR 0x83],
      [CHR 0xE2, CHR 0x80, CHR 0x84], [CHR 0xE2, CHR 0x80, CHR 0x85],
      [CHR 0xE2, CHR 0x80, CHR 0x86], [CHR 0xE2, CHR 0x80, CHR 0x87],
      [CHR 0xE2, CHR 0x80, CHR 0x88], [CHR 0xE2, CHR 0x80, CHR 0x89],
      [CHR 0xE2, CHR 0x80, CHR 0x8A],
      [CHR 0xE2, CHR 0x80, CHR 0xA8], [CHR 0xE2, CHR 0x80, CHR 0xA9],
      [CHR 0xE2, CHR 0x80, CHR 0xAF],
      [CHR 0xE2, CHR 0x81, CHR 0x9F],
      [CHR 0xE3, CHR 0x80, CHR 0x80]]"

text \<open>The length of the whitespace character \<open>s\<close> starts with (0 when there is none).\<close>

definition ws_head :: "string \<Rightarrow> nat" where
  "ws_head s = (case find (\<lambda>w. prefix w s) unicode_ws of None \<Rightarrow> 0 | Some w \<Rightarrow> length w)"

text \<open>The length of the whitespace character \<open>s\<close> ends with (0 when there is none).\<close>

definition ws_last :: "string \<Rightarrow> nat" where
  "ws_last s = (case find (\<lambda>w. suffix w s) unicode_ws of None \<Rightarrow> 0 | Some w \<Rightarrow> length w)"

lemma ws_head_le: "ws_head s \<le> length s"
  by (auto simp: ws_head_def find_Some_iff prefix_length_le split: option.splits)

lemma ws_last_le: "ws_last s \<le> length s"
  by (auto simp: ws_last_def find_Some_iff suffix_length_le split: option.splits)

function lstrip :: "string \<Rightarrow> string" where
  "lstrip s = (if ws_head s = 0 then s else lstrip (drop (ws_head s) s))"
  by pat_completeness auto
termination
proof (relation "measure length")
  fix s :: string
  assume "ws_head s \<noteq> 0"
  with ws_head_le [of s] show "(drop (ws_head s) s, s) \<in> measure length"
    by simp
qed simp

function rstrip :: "string \<Rightarrow> string" where
  "rstrip s = (if ws_last s = 0 then s else rstrip (take (length s - ws_last s) s))"
  by pat_completeness auto
termination
proof (relation "measure length")
  fix s :: string
  assume "ws_last s \<noteq> 0"
  with ws_last_le [of s] show "(take (length s - ws_last s) s, s) \<in> measure length"
    by simp
qed simp

declare lstrip.simps [simp del] rstrip.simps [simp del]

text \<open>\<open>s.strip()\<close>\<close>

definition strip :: "string \<Rightarrow> string" where
  "strip s = rstrip (lstrip s)"

text \<open>\<open>s.replace(c, r)\<close> for a one-character \<open>c\<close>.\<close>

definition replace_char :: "char \<Rightarrow> string \<Rightarrow> string \<Rightarrow> string" where
  "replace_char c r s = concat (map (\<lambda>x. if x = c then r else [x]) s)"

text \<open>\<open>str(n)\<close> for an integer.\<close>

fun digits :: "nat \<Rightarrow> string" where
  "digits n = (if n < 10 then [''0123456789'' ! n]
     else digits (n div 10) @ [''0123456789'' ! (n mod 10)])"

declare digits.simps [simp del]

definition str_int :: "int \<Rightarrow> string" where
  "str_int i = (if i < 0 then ''-'' @ digits (nat (- i)) else digits (nat i))"

section \<open>Values read from the configuration\<close>

text \<open>
  What \<open>json.loads\<close> returns. A float is kept by what the program can observe of it: whether
  it is zero (its truth value) and its \<open>str()\<close>. An object is the list of its items; \<open>get\<close>
  reads the first item with the key.
\<close>

datatype json =
    JNull
  | JBool bool
  | JInt int
  | JFloat bool string
  | JStr string
  | JList "json list"
  | JObj "(string \<times> json) list"

datatype error =
    AttributeError
  | TypeError
  | ValueError
  | OSError
  | SystemExit string

text \<open>The truth value of a Python object, as \<open>or\<close>, \<open>not\<close> and \<open>if\<close> take it.\<close>

fun truthy :: "json \<Rightarrow> bool" where
  "truthy JNull = False"
| "truthy (JBool b) = b"
| "truthy (JInt i) = (i \<noteq> 0)"
| "truthy (JFloat z s) = (\<not> z)"
| "truthy (JStr s) = (s \<noteq> [])"
| "truthy (JList xs) = (xs \<noteq> [])"
| "truthy (JObj kvs) = (kvs \<noteq> [])"

text \<open>\<open>d.get(k)\<close>: \<open>None\<close> when the key is absent.\<close>

definition get :: "(string \<times> json) list \<Rightarrow> string \<Rightarrow> json" where
  "get d k = (case map_of d k of None \<Rightarrow> JNull | Some v \<Rightarrow> v)"

text \<open>
  \<open>str(x)\<close>. On a list or a dict it is the \<open>repr\<close> of the object, which is taken as the
  parameter \<open>repr\<close>: every result below holds whatever \<open>repr\<close> returns.
\<close>

fun py_str :: "(json \<Rightarrow> string) \<Rightarrow> json \<Rightarrow> string" where
  "py_str repr JNull = ''None''"
| "py_str repr (JBool b) = (if b then ''True'' else ''False'')"
| "py_str repr (JInt i) = str_int i"
| "py_str repr (JFloat z s) = s"
| "py_str repr (JStr s) = s"
| "py_str repr (JList xs) = repr (JList xs)"
| "py_str repr (JObj kvs) = repr (JObj kvs)"

section \<open>Settings read from the environment\<close>

text \<open>
  \<open>CACHE_IMAGES = os.environ.get("CACHE_IMAGES", "0").strip() in {"1", "true", "TRUE", "yes", "YES"}\<close>
\<close>

definition CACHE_IMAGES :: "(string \<rightharpoonup> string) \<Rightarrow> bool" where
  "CACHE_IMAGES environ =
     (strip (case environ ''CACHE_IMAGES'' of None \<Rightarrow> ''0'' | Some v \<Rightarrow> v)
        \<in> {''1'', ''true'', ''TRUE'', ''yes'', ''YES''})"

definition PLACEHOLDER :: string where
  "PLACEHOLDER = ''assets/placeholder.svg''"

section \<open>Escaping\<close>

definition esc :: "string \<Rightarrow> string" where
  \<open>esc s =
     replace_char (CHR 0x27) ''&#39;''
       (replace_char (CHR 0x22) ''&quot;''
         (replace_char CHR ''>'' ''&gt;''
           (replace_char CHR ''<'' ''&lt;''
             (replace_char CHR ''&'' ''&amp;'' s))))\<close>

section \<open>Normalising the products\<close>

record product =
  asin :: string
  name :: string
  description :: string
  image_url :: string
  amazon_url :: string
  best_for :: "string list"

text \<open>
  \<open>(v or d).strip()\<close>: a false \<open>v\<close> gives way to the default; a true \<open>v\<close> that is not a
  string has no \<open>strip\<close>, and the attribute lookup raises.
\<close>

definition or_strip :: "json \<Rightarrow> string \<Rightarrow> error + string" where
  "or_strip v d =
     (if truthy v then (case v of JStr s \<Rightarrow> Inr (strip s) | _ \<Rightarrow> Inl AttributeError)
      else Inr (strip d))"

text \<open>
  \<open>best_for = it.get("best_for") or []\<close>, a string wrapped into a list, anything that is not a
  list replaced by the empty list.
\<close>

definition best_for_items :: "json \<Rightarrow> json list" where
  "best_for_items v =
     (if \<not> truthy v then []
      else case v of JStr s \<Rightarrow> [JStr s] | JList xs \<Rightarrow> xs | _ \<Rightarrow> [])"

text \<open>\<open>[str(x).strip() for x in best_for if str(x).strip()][:2]\<close>\<close>

definition best_for_tags :: "(json \<Rightarrow> string) \<Rightarrow> json list \<Rightarrow> string list" where
  "best_for_tags repr xs =
     take 2 (filter (\<lambda>s. s \<noteq> []) (map (\<lambda>x. strip (py_str repr x)) xs))"

text \<open>The dict appended to \<open>out\<close>, its values evaluated in the order they are written.\<close>

definition make_product :: "(json \<Rightarrow> string) \<Rightarrow> (string \<times> json) list \<Rightarrow> string \<Rightarrow> error + product" where
  "make_product repr it a =
     (case or_strip (get it ''product_name'') [] of
        Inl e \<Rightarrow> Inl e
      | Inr n \<Rightarrow>
     (case or_strip (get it ''description'') [] of
        Inl e \<Rightarrow> Inl e
      | Inr d \<Rightarrow>
     (case or_strip (get it ''image_url'') [] of
        Inl e \<Rightarrow> Inl e
      | Inr i \<Rightarrow>
     (case or_strip (get it ''amazon_url'') (''https://www.amazon.com/dp/'' @ a) of
        Inl e \<Rightarrow> Inl e
      | Inr u \<Rightarrow>
          Inr \<lparr>asin = a, name = (if n = [] then ''Product'' else n), description = d,
               image_url = i, amazon_url = u,
               best_for = best_for_tags repr (best_for_items (get it ''best_for''))\<rparr>))))"

text \<open>
  The loop of \<open>normalize_products\<close>, with \<open>out\<close> and \<open>seen\<close> as it has them. An item that is
  not a dict has no \<open>get\<close>.
\<close>

fun normalize_loop ::
  "(json \<Rightarrow> string) \<Rightarrow> json list \<Rightarrow> product list \<Rightarrow> string set \<Rightarrow> error + product list" where
  "normalize_loop repr [] out seen = Inr out"
| "normalize_loop repr (JObj it # items) out seen =
     (case or_strip (get it ''amazon_asin'') [] of
        Inl e \<Rightarrow> Inl e
      | Inr a \<Rightarrow>
          if a = [] \<or> a \<in> seen then normalize_loop repr items out seen
          else (case make_product repr it a of
                  Inl e \<Rightarrow> Inl e
                | Inr p \<Rightarrow> normalize_loop repr items (out @ [p]) (insert a seen)))"
| "normalize_loop repr (x # items) out seen = Inl AttributeError"

definition normalize_products :: "(json \<Rightarrow> string) \<Rightarrow> json list \<Rightarrow> error + product list" where
  "normalize_products repr items = normalize_loop repr items [] {}"

section \<open>What the specification says of the normalised list\<close>




text \<open>The trimmed \<open>amazon_asin\<close> of a record, empty when the field is absent.\<close>

definition trimmed_asin :: "json \<Rightarrow> string" where
  "trimmed_asin x = (case x of
      JObj it \<Rightarrow> (case get it ''amazon_asin'' of JStr s \<Rightarrow> strip s | _ \<Rightarrow> [])
    | _ \<Rightarrow> [])"

section \<open>Rendering\<close>

definition tags_html :: "string list \<Rightarrow> string" where
  \<open>tags_html tags =
     (if tags = [] then []
      else ''<div class="tags">'' @
           concat (map (\<lambda>t. ''<span class="tag">'' @ esc t @ ''</span>'') (take 2 tags)) @
           ''</div>'')\<close>

text \<open>The number of places in \<open>s\<close> where \<open>p\<close> occurs as a contiguous substring.\<close>

fun occurrences :: "'a list \<Rightarrow> 'a list \<Rightarrow> nat" where
  "occurrences p [] = (if p = [] then 1 else 0)"
| "occurrences p (x # xs) = (if prefix p (x # xs) then 1 else 0) + occurrences p xs"

section \<open>URLs\<close>

text \<open>
  \<open>urllib.parse\<close> as CPython 3.11 has it. The checks the library makes of a bracketed host
  and of a netloc with non-ASCII characters (each raises \<open>ValueError\<close>) are the parameter
  \<open>accepts\<close>: it is asked only for such a netloc, and the results below hold for every
  \<open>accepts\<close>.
\<close>

definition uses_netloc :: "string list" where
  "uses_netloc = ['''', ''ftp'', ''http'', ''gopher'', ''nntp'', ''telnet'',
     ''imap'', ''wais'', ''file'', ''mms'', ''https'', ''shttp'',
     ''snews'', ''prospero'', ''rtsp'', ''rtsps'', ''rtspu'', ''rsync'',
     ''svn'', ''svn+ssh'', ''sftp'', ''nfs'', ''git'', ''git+ssh'',
     ''ws'', ''wss'']"

definition uses_params :: "string list" where
  "uses_params = ['''', ''ftp'', ''hdl'', ''prospero'', ''http'', ''imap'',
     ''https'', ''shttp'', ''rtsp'', ''rtsps'', ''rtspu'', ''sip'',
     ''sips'', ''mms'', ''sftp'', ''tel'']"

definition ascii_upper :: string where
  "ascii_upper = ''ABCDEFGHIJKLMNOPQRSTUVWXYZ''"

definition ascii_lowercase :: string where
  "ascii_lowercase = ''abcdefghijklmnopqrstuvwxyz''"

definition scheme_chars :: string where
  "scheme_chars = ascii_lowercase @ ascii_upper @ ''0123456789'' @ ''+-.''"

definition lower_char :: "char \<Rightarrow> char" where
  "lower_char c = (case map_of (zip ascii_upper ascii_lowercase) c of None \<Rightarrow> c | Some l \<Rightarrow> l)"

text \<open>\<open>s.partition(c)\<close> without the separator: the text before the first \<open>c\<close> and the text after it.\<close>

definition before :: "char \<Rightarrow> string \<Rightarrow> string" where
  "before c s = takeWhile (\<lambda>x. x \<noteq> c) s"

definition after :: "char \<Rightarrow> string \<Rightarrow> string" where
  "after c s = drop 1 (dropWhile (\<lambda>x. x \<noteq> c) s)"

record parse_result =
  scheme :: string
  netloc :: string
  path :: string
  params :: string
  query :: string
  fragment :: string

definition split_scheme :: "string \<Rightarrow> string \<times> string" where
  "split_scheme url =
     (let pre = before CHR '':'' url in
      if CHR '':'' \<in> set url \<and> pre \<noteq> [] \<and> hd pre \<in> set (ascii_lowercase @ ascii_upper) \<and>
         list_all (\<lambda>c. c \<in> set scheme_chars) pre
      then (map lower_char pre, after CHR '':'' url)
      else ([], url))"

definition splitnetloc :: "string \<Rightarrow> string \<times> string" where
  "splitnetloc url =
     (if take 2 url = ''//''
      then (takeWhile (\<lambda>c. c \<notin> set ''/?#'') (drop 2 url),
            dropWhile (\<lambda>c. c \<notin> set ''/?#'') (drop 2 url))
      else ([], url))"

definition netloc_checked :: "string \<Rightarrow> bool" where
  "netloc_checked n =
     ((CHR ''['' \<in> set n \<and> CHR '']'' \<in> set n) \<or> (\<exists>c \<in> set n. 128 \<le> (of_char c :: nat)))"

definition urlsplit :: "(string \<Rightarrow> bool) \<Rightarrow> string \<Rightarrow> error + parse_result" where
  "urlsplit accepts url0 =
     (let url1 = filter (\<lambda>c. c \<notin> {CHR 0x09, CHR 0x0D, CHR 0x0A})
                   (dropWhile (\<lambda>c. (of_char c :: nat) \<le> 32) url0);
          (sch, url2) = split_scheme url1;
          (net, url3) = splitnetloc url2;
          url4 = before CHR ''#'' url3
      in if (CHR ''['' \<in> set net) \<noteq> (CHR '']'' \<in> set net) then Inl ValueError
         else if netloc_checked net \<and> \<not> accepts net then Inl ValueError
         else Inr \<lparr>scheme = sch, netloc = net, path = before CHR ''?'' url4, params = [],
                   query = after CHR ''?'' url4, fragment = after CHR ''#'' url3\<rparr>)"

definition splitparams :: "string \<Rightarrow> string \<times> string" where
  "splitparams url =
     (let seg = rev (takeWhile (\<lambda>c. c \<noteq> CHR ''/'') (rev url));
          dir = take (length url - length seg) url
      in if CHR '';'' \<in> set seg then (dir @ before CHR '';'' seg, after CHR '';'' seg)
         else (url, []))"

definition urlparse :: "(string \<Rightarrow> bool) \<Rightarrow> string \<Rightarrow> error + parse_result" where
  "urlparse accepts url =
     (case urlsplit accepts url of
        Inl e \<Rightarrow> Inl e
      | Inr r \<Rightarrow>
          if scheme r \<in> set uses_params \<and> CHR '';'' \<in> set (path r)
          then Inr (r\<lparr>path := fst (splitparams (path r)), params := snd (splitparams (path r))\<rparr>)
          else Inr r)"

definition urlunsplit :: "string \<Rightarrow> string \<Rightarrow> string \<Rightarrow> string \<Rightarrow> string \<Rightarrow> string" where
  "urlunsplit sch net url qry frag =
     (let url1 = (if net \<noteq> [] \<or> (sch \<noteq> [] \<and> sch \<in> set uses_netloc) \<or> take 2 url = ''//''
                  then ''//'' @ net @ (if url \<noteq> [] \<and> take 1 url \<noteq> ''/'' then ''/'' @ url else url)
                  else url);
          url2 = (if sch \<noteq> [] then sch @ '':'' @ url1 else url1);
          url3 = (if qry \<noteq> [] then url2 @ ''?'' @ qry else url2)
      in if frag \<noteq> [] then url3 @ ''#'' @ frag else url3)"

definition urlunparse :: "parse_result \<Rightarrow> string" where
  "urlunparse r =
     urlunsplit (scheme r) (netloc r)
       (if params r \<noteq> [] then path r @ '';'' @ params r else path r) (query r) (fragment r)"


section \<open>Query strings\<close>

definition hexdig :: string where
  "hexdig = ''0123456789ABCDEFabcdef''"

definition hex_val :: "char \<Rightarrow> nat" where
  "hex_val c = (case map_of (zip hexdig [0, 1, 2, 3, 4, 5, 6, 7, 8, 9, 10, 11, 12, 13, 14, 15,
                                         10, 11, 12, 13, 14, 15]) c of None \<Rightarrow> 0 | Some n \<Rightarrow> n)"

fun unquote_to_bytes :: "string \<Rightarrow> string" where
  "unquote_to_bytes (c # h1 # h2 # rest) =
     (if c = CHR ''%'' \<and> h1 \<in> set hexdig \<and> h2 \<in> set hexdig
      then char_of (16 * hex_val h1 + hex_val h2) # unquote_to_bytes rest
      else c # unquote_to_bytes (h1 # h2 # rest))"
| "unquote_to_bytes s = s"

definition cont :: "char \<Rightarrow> bool" where
  "cont c = (128 \<le> (of_char c :: nat) \<and> (of_char c :: nat) < 192)"

definition FFFD :: string where
  "FFFD = [CHR 0xEF, CHR 0xBF, CHR 0xBD]"

text \<open>The second byte a three-byte or four-byte sequence may have after the lead byte \<open>b\<close>.\<close>

definition second_ok :: "char \<Rightarrow> char \<Rightarrow> bool" where
  "second_ok b c =
     (cont c \<and> \<not> (b = CHR 0xE0 \<and> (of_char c :: nat) < 160) \<and> \<not> (b = CHR 0xED \<and> 160 \<le> (of_char c :: nat))
             \<and> \<not> (b = CHR 0xF0 \<and> (of_char c :: nat) < 144) \<and> \<not> (b = CHR 0xF4 \<and> 144 \<le> (of_char c :: nat)))"

fun utf8_replace :: "string \<Rightarrow> string" where
  "utf8_replace [] = []"
| "utf8_replace (b # rest) =
     (if (of_char b :: nat) < 128 then b # utf8_replace rest
      else if (of_char b :: nat) < 194 then FFFD @ utf8_replace rest
      else if (of_char b :: nat) < 224 then
        (case rest of
           [] \<Rightarrow> FFFD
         | c2 # r2 \<Rightarrow> if cont c2 then b # c2 # utf8_replace r2 else FFFD @ utf8_replace rest)
      else if (of_char b :: nat) < 240 then
        (case rest of
           [] \<Rightarrow> FFFD
         | c2 # r2 \<Rightarrow>
             if \<not> second_ok b c2 then FFFD @ utf8_replace rest
             else (case r2 of
                     [] \<Rightarrow> FFFD
                   | c3 # r3 \<Rightarrow>
                       if cont c3 then b # c2 # c3 # utf8_replace r3 else FFFD @ utf8_replace r2))
      else if (of_char b :: nat) < 245 then
        (case rest of
           [] \<Rightarrow> FFFD
         | c2 # r2 \<Rightarrow>
             if \<not> second_ok b c2 then FFFD @ utf8_replace rest
             else (case r2 of
                     [] \<Rightarrow> FFFD
                   | c3 # r3 \<Rightarrow>
                       if \<not> cont c3 then FFFD @ utf8_replace r2
                       else (case r3 of
                               [] \<Rightarrow> FFFD
                             | c4 # r4 \<Rightarrow>
                                 if cont c4 then b # c2 # c3 # c4 # utf8_replace r4
                                 else FFFD @ utf8_replace r3)))
      else FFFD @ utf8_replace rest)"

definition ascii :: "char \<Rightarrow> bool" where
  "ascii c = ((of_char c :: nat) < 128)"

function unquote_runs :: "string \<Rightarrow> string" where
  "unquote_runs s =
     (if s = [] then []
      else utf8_replace (unquote_to_bytes (takeWhile ascii s)) @
           takeWhile (\<lambda>c. \<not> ascii c) (dropWhile ascii s) @
           unquote_runs (dropWhile (\<lambda>c. \<not> ascii c) (dropWhile ascii s)))"
  by pat_completeness auto
termination
proof (relation "measure length")
  fix s :: string
  assume "s \<noteq> []"
  then obtain x xs where s: "s = x # xs" by (cases s) auto
  have "length (dropWhile (\<lambda>c. \<not> ascii c) (dropWhile ascii s)) < length s"
  proof (cases "ascii x")
    case True
    have "length (dropWhile (\<lambda>c. \<not> ascii c) (dropWhile ascii xs)) \<le> length xs"
      by (meson length_dropWhile_le order_trans)
    with True s show ?thesis by simp
  next
    case False
    have "length (dropWhile (\<lambda>c. \<not> ascii c) xs) \<le> length xs"
      by (rule length_dropWhile_le)
    with False s show ?thesis by simp
  qed
  then show "(dropWhile (\<lambda>c. \<not> ascii c) (dropWhile ascii s), s) \<in> measure length"
    by simp
qed simp

declare unquote_runs.simps [simp del]

definition unquote :: "string \<Rightarrow> string" where
  "unquote s = (if CHR ''%'' \<notin> set s then s else unquote_runs s)"

definition unquote_plus :: "string \<Rightarrow> string" where
  "unquote_plus s = unquote (replace_char CHR ''+'' '' '' s)"

fun split_on :: "char \<Rightarrow> string \<Rightarrow> string list" where
  "split_on c [] = [[]]"
| "split_on c (x # xs) =
     (if x = c then [] # split_on c xs
      else (case split_on c xs of [] \<Rightarrow> [[x]] | y # ys \<Rightarrow> (x # y) # ys))"

definition parse_qsl :: "string \<Rightarrow> (string \<times> string) list" where
  "parse_qsl qs =
     (if qs = [] then []
      else map (\<lambda>nv. (unquote_plus (before CHR ''='' nv), unquote_plus (after CHR ''='' nv)))
             (filter (\<lambda>nv. nv \<noteq> []) (split_on CHR ''&'' qs)))"

fun dict_set :: "(string \<times> string) list \<Rightarrow> string \<Rightarrow> string \<Rightarrow> (string \<times> string) list" where
  "dict_set [] k v = [(k, v)]"
| "dict_set ((k', v') # d) k v = (if k' = k then (k, v) # d else (k', v') # dict_set d k v)"

definition dict_of :: "(string \<times> string) list \<Rightarrow> (string \<times> string) list" where
  "dict_of pairs = foldl (\<lambda>d (k, v). dict_set d k v) [] pairs"

definition always_safe :: string where
  "always_safe = ascii_upper @ ascii_lowercase @ ''0123456789'' @ ''_.-~''"

definition quote_byte :: "char \<Rightarrow> string" where
  "quote_byte c =
     (if c \<in> set always_safe then [c]
      else if c = CHR '' '' then ''+''
      else [CHR ''%'', ''0123456789ABCDEF'' ! ((of_char c :: nat) div 16),
            ''0123456789ABCDEF'' ! ((of_char c :: nat) mod 16)])"

definition quote_plus :: "string \<Rightarrow> string" where
  "quote_plus s = concat (map quote_byte s)"

fun join :: "string \<Rightarrow> string list \<Rightarrow> string" where
  "join sep [] = []"
| "join sep [x] = x"
| "join sep (x # y # ys) = x @ sep @ join sep (y # ys)"

definition urlencode :: "(string \<times> string) list \<Rightarrow> string" where
  "urlencode q = join ''&'' (map (\<lambda>(k, v). quote_plus k @ ''='' @ quote_plus v) q)"

definition with_affiliate_tag :: "(string \<Rightarrow> bool) \<Rightarrow> string \<Rightarrow> string \<Rightarrow> error + string" where
  "with_affiliate_tag accepts url tag =
     (case urlparse accepts url of
        Inl e \<Rightarrow> Inl e
      | Inr u \<Rightarrow>
          Inr (urlunparse
                 (u\<lparr>query := urlencode (dict_set (dict_of (parse_qsl (query u))) ''tag'' tag)\<rparr>)))"

section \<open>Caching an image\<close>

text \<open>\<open>s.lower()\<close> on ASCII letters. Other characters are left as they are: the results of
  \<open>lower\<close> are only compared with ASCII text that has no \<open>k\<close>, and the one character outside
  ASCII that lower-cases to an ASCII letter alone is the Kelvin sign (to \<open>k\<close>).\<close>

definition lower :: "string \<Rightarrow> string" where
  "lower s = map lower_char s"

text \<open>
  \<open>re.search(r"\.(png|jpe?g|webp|avif|gif)(?:\?|$)", s)\<close>: the leftmost dot followed by one of
  the names and then by \<open>?\<close> or the end of the text (\<open>$\<close> also matches before a final newline).
  The result is group 1.
\<close>

definition at_end :: "string \<Rightarrow> bool" where
  "at_end r = (r = [] \<or> r = [CHR 0x0A] \<or> take 1 r = ''?'')"

fun search_ext :: "string \<Rightarrow> string option" where
  "search_ext [] = None"
| "search_ext (c # cs) =
     (if c = CHR ''.'' then
        (case find (\<lambda>e. prefix e cs \<and> at_end (drop (length e) cs))
                [''png'', ''jpeg'', ''jpg'', ''webp'', ''avif'', ''gif''] of
           Some e \<Rightarrow> Some e
         | None \<Rightarrow> search_ext cs)
      else search_ext cs)"

definition ext_of_content_type :: "string \<Rightarrow> string option" where
  "ext_of_content_type content_type =
     (let ct = lower (strip (before CHR '';'' content_type)) in
      if ct = ''image/png'' then Some ''.png''
      else if ct \<in> {''image/jpeg'', ''image/jpg''} then Some ''.jpg''
      else if ct = ''image/webp'' then Some ''.webp''
      else if ct = ''image/avif'' then Some ''.avif''
      else if ct = ''image/gif'' then Some ''.gif''
      else None)"

definition safe_ext :: "string \<Rightarrow> string option \<Rightarrow> string" where
  "safe_ext url content_type =
     (case (case content_type of
              None \<Rightarrow> None
            | Some ct \<Rightarrow> if ct = [] then None else ext_of_content_type ct) of
        Some e \<Rightarrow> e
      | None \<Rightarrow>
          (case search_ext (lower url) of
             Some m \<Rightarrow> ''.'' @ (if m = ''jpeg'' then ''jpg'' else m)
           | None \<Rightarrow> ''.img''))"

text \<open>
  \<open>pathlib\<close> on POSIX. \<open>str(base / rel)\<close>: empty components and \<open>.\<close> are dropped, \<open>..\<close> is
  kept, and a \<open>rel\<close> that starts with a slash replaces \<open>base\<close>.
\<close>

definition path_parts :: "string \<Rightarrow> string list" where
  "path_parts s = filter (\<lambda>p. p \<noteq> [] \<and> p \<noteq> ''.'') (split_on CHR ''/'' s)"

definition path_root :: "string \<Rightarrow> string" where
  "path_root s =
     (if take 2 s = ''//'' \<and> take 3 s \<noteq> ''///'' then ''//''
      else if take 1 s = ''/'' then ''/'' else [])"

definition path_str :: "string \<Rightarrow> string list \<Rightarrow> string" where
  "path_str root parts = (if root = [] \<and> parts = [] then ''.'' else root @ join ''/'' parts)"

definition path_join :: "string \<Rightarrow> string \<Rightarrow> string" where
  "path_join base rel =
     (if path_root rel \<noteq> [] then path_str (path_root rel) (path_parts rel)
      else path_str (path_root base) (path_parts base @ path_parts rel))"

definition IMG_DIR :: string where
  "IMG_DIR = path_join ''assets'' ''img''"

text \<open>
  What the outside world answers: the response to the one GET of a URL (\<open>None\<close> when
  \<open>requests.get\<close> raises), whether a directory can be made and whether a file can be written.
  A response is its status code, its body and its \<open>Content-Type\<close> header.
\<close>

record response =
  status_code :: int
  content :: string
  content_type :: "string option"

record outside =
  http_get :: "string \<Rightarrow> response option"
  mkdir_ok :: "string \<Rightarrow> bool"
  write_ok :: "string \<Rightarrow> bool"

text \<open>What a written file holds: bytes, text, or the text \<open>json.dumps\<close> makes of a value.\<close>

datatype file_content = Bytes string | Text string | Json json

type_synonym files = "string \<rightharpoonup> file_content"

text \<open>
  \<open>cache_image\<close>. \<open>IMG_DIR.mkdir\<close> stands before the \<open>try\<close>: its failure is raised. Inside the
  \<open>try\<close>, a GET that raises and a write that raises are caught.
\<close>

definition cache_image :: "outside \<Rightarrow> string \<Rightarrow> string \<Rightarrow> files \<Rightarrow> error + (string \<times> files)" where
  "cache_image out a remote_url fs =
     (if remote_url = [] then Inr (PLACEHOLDER, fs)
      else if \<not> mkdir_ok out IMG_DIR then Inl OSError
      else (case http_get out remote_url of
              None \<Rightarrow> Inr (remote_url, fs)
            | Some r \<Rightarrow>
                if status_code r \<noteq> 200 \<or> content r = [] then Inr (remote_url, fs)
                else (let ext = safe_ext remote_url (content_type r);
                          local = path_join IMG_DIR (a @ ext)
                      in if write_ok out local
                         then Inr (replace_char (CHR 0x5C) ''/'' local, fs(local \<mapsto> Bytes (content r)))
                         else Inr (remote_url, fs))))"

text \<open>\<open>card\<close>, with the flag \<open>CACHE_IMAGES\<close> as its first argument.\<close>

definition card ::
  "bool \<Rightarrow> (string \<Rightarrow> bool) \<Rightarrow> outside \<Rightarrow> product \<Rightarrow> string \<Rightarrow> files \<Rightarrow> error + (string \<times> files)" where
  \<open>card cache accepts out p partner_tag fs =
     (case with_affiliate_tag accepts (amazon_url p) partner_tag of
        Inl e \<Rightarrow> Inl e
      | Inr url \<Rightarrow>
          (case (if cache then cache_image out (asin p) (image_url p) fs
                 else Inr (image_url p, fs)) of
             Inl e \<Rightarrow> Inl e
           | Inr (src0, fs') \<Rightarrow>
               (let src = (if src0 = [] then PLACEHOLDER else src0);
                    img_html =
                      ''<img src="'' @ esc src @ ''" alt="'' @ esc (name p) @ ''" loading="lazy" '' @
                      ''referrerpolicy="no-referrer" onerror="this.onerror=null;this.src='' @
                      [CHR 0x27] @ PLACEHOLDER @ [CHR 0x27] @ '';">''
                in Inr (''<div class="card">'' @
                        ''  <div class="img">'' @ img_html @ ''</div>'' @
                        ''  <div class="content">'' @
                        ''    <p class="name">'' @ esc (name p) @ ''</p>'' @
                        ''    '' @ tags_html (best_for p) @
                        ''    <p class="desc">'' @ esc (description p) @ ''</p>'' @
                        ''    <div class="actions">'' @
                        ''      <a class="btn" href="'' @ esc url @
                          ''" rel="nofollow sponsored">Check price on Amazon</a>'' @
                        ''    </div>'' @
                        ''  </div>'' @
                        ''</div>'', fs'))))\<close>

text \<open>The fetch fails: \<open>requests.get\<close> raises, the status is not 200 or the body is empty.\<close>

definition fetch_failed :: "response option \<Rightarrow> bool" where
  "fetch_failed r = (case r of None \<Rightarrow> True | Some r \<Rightarrow> status_code r \<noteq> 200 \<or> content r = [])"


section \<open>The page\<close>

text \<open>
  The template \<open>HTML\<close>, cut at its six fields: \<open>HTML.format(title=..., ...)\<close> puts the
  arguments between the pieces, and the doubled braces of the template are single braces.
\<close>

definition NL :: string where
  "NL = [CHR 0x0A]"

definition HTML_0 :: string where
  \<open>HTML_0 =
     ''<!doctype html>'' @ NL @
     ''<html lang="en">'' @ NL @
     ''<head>'' @ NL @
     ''  <meta charset="utf-8">'' @ NL @
     ''  <meta name="viewport" content="width=device-width, initial-scale=1">'' @ NL @
     ''  <title>''\<close>

definition HTML_1 :: string where
  \<open>HTML_1 =
     ''</title>'' @ NL @
     ''  <meta name="description" content="''\<close>

definition HTML_style :: string where
  \<open>HTML_style =
     ''    body { font-family: system-ui, -apple-system, Segoe UI, Roboto, Helvetica, Arial, sans-serif; margin: 0; background:#fafafa; color:#111; }'' @ NL @
     ''    header, main, footer { max-width: 1060px; margin: 0 auto; padding: 18px 16px; }'' @ NL @
     ''    h1 { font-size: 28px; margin: 10px 0 8px; }'' @ NL @
     ''    p { margin: 8px 0; line-height: 1.5; }'' @ NL @
     ''    .meta { color:#444; font-size: 14px; }'' @ NL @
     ''    .grid { display:grid; grid-template-columns: repeat(3, minmax(0, 1fr)); gap: 14px; }'' @ NL @
     ''    .card { background:white; border-radius: 14px; overflow:hidden; box-shadow: 0 2px 10px rgba(0,0,0,0.06); display:flex; flex-direction:column; }'' @ NL @
     ''    .img { background:#f3f4f6; aspect-ratio: 4 / 3; overflow:hidden; }'' @ NL @
     ''    .img img { width:100%; height:100%; object-fit:contain; display:block; background:#fff; }'' @ NL @
     ''    .content { padding: 12px 14px 14px; display:flex; flex-direction:column; gap:8px; flex:1; }'' @ NL @
     ''    .name { font-weight: 800; font-size: 16px; margin: 0; }'' @ NL @
     ''    .desc { color:#333; font-size: 14px; margin:0; }'' @ NL @
     ''    .tags { display:flex; flex-wrap:wrap; gap:6px; margin:2px 0 0; }'' @ NL @
     ''    .tag { font-size: 12px; padding: 4px 8px; border: 1px solid #e5e7eb; background:#f9fafb; border-radius: 999px; color:#374151; }'' @ NL @
     ''    .actions { margin-top:auto; display:flex; gap:10px; align-items:center; padding-top: 4px; }'' @ NL @
     ''    .btn { display:inline-block; padding: 10px 12px; border:1px solid #ddd; border-radius: 12px; background:#fff; font-weight: 700; text-align:center; }'' @ NL @
     ''    .btn:hover { background:#f7f7f7; text-decoration:none; }'' @ NL @
     ''    a { color:#0b57d0; text-decoration: none; }'' @ NL @
     ''    a:hover { text-decoration: underline; }'' @ NL @
     ''    @media (max-width: 980px) {'' @ NL @
     ''      .grid { grid-template-columns: repeat(2, minmax(0, 1fr)); }'' @ NL @
     ''    }'' @ NL @
     ''    @media (max-width: 640px) {'' @ NL @
     ''      .grid { grid-template-columns: 1fr; }'' @ NL @
     ''    }'' @ NL\<close>

definition HTML_2 :: string where
  \<open>HTML_2 =
     ''">'' @ NL @
     ''  <style>'' @ NL @
     HTML_style @
     ''  </style>'' @ NL @
     ''</head>'' @ NL @
     ''<body>'' @ NL @
     ''  <header>'' @ NL @
     ''    <h1>''\<close>

definition HTML_3 :: string where
  \<open>HTML_3 =
     ''</h1>'' @ NL @
     ''    ''\<close>

definition HTML_4 :: string where
  \<open>HTML_4 =
     NL @
     ''    <p class="meta">Last updated: ''\<close>

definition HTML_5 :: string where
  \<open>HTML_5 =
     ''</p>'' @ NL @
     ''  </header>'' @ NL @
     NL @
     ''  <main>'' @ NL @
     ''    <div class="grid">'' @ NL @
     ''      ''\<close>

definition HTML_6 :: string where
  \<open>HTML_6 =
     NL @
     ''    </div>'' @ NL @
     ''  </main>'' @ NL @
     NL @
     ''  <footer>'' @ NL @
     ''    <p><strong>Affiliate disclosure:</strong> As an Amazon Associate, I earn from qualifying purchases.</p>'' @ NL @
     ''    <p><a href="privacy.html">Privacy</a> '' @ [CHR 0xC3] @ [CHR 0x82] @ [CHR 0xC2] @ [CHR 0xB7] @ '' <a href="disclosure.html">Disclosure</a></p>'' @ NL @
     ''  </footer>'' @ NL @
     ''</body>'' @ NL @
     ''</html>'' @ NL\<close>

definition HTML :: "string \<Rightarrow> string \<Rightarrow> string \<Rightarrow> string \<Rightarrow> string \<Rightarrow> string \<Rightarrow> string" where
  "HTML title desc h1 intro updated cards =
     HTML_0 @ title @ HTML_1 @ desc @ HTML_2 @ h1 @ HTML_3 @ intro @ HTML_4 @ updated @
     HTML_5 @ cards @ HTML_6"

section \<open>Building the page\<close>

text \<open>
  The characters of a string, for \<open>for p in s\<close>: each byte that is not a continuation byte
  starts a character.
\<close>

function codepoints :: "string \<Rightarrow> string list" where
  "codepoints [] = []"
| "codepoints (c # cs) = (c # takeWhile cont cs) # codepoints (dropWhile cont cs)"
  by pat_completeness auto
termination
  by (relation "measure length") (auto simp: length_dropWhile_le less_Suc_eq_le)

text \<open>
  What a \<open>for\<close> loop runs through: the elements of a list, the characters of a string, the
  keys of a dict. Anything else is not iterable.
\<close>

definition iterate :: "json \<Rightarrow> error + json list" where
  "iterate v =
     (case v of
        JList xs \<Rightarrow> Inr xs
      | JStr s \<Rightarrow> Inr (map JStr (codepoints s))
      | JObj kvs \<Rightarrow> Inr (map (\<lambda>kv. JStr (fst kv)) kvs)
      | _ \<Rightarrow> Inl TypeError)"

text \<open>\<open>d.setdefault(k, v)\<close>\<close>

definition setdefault :: "(string \<times> json) list \<Rightarrow> string \<Rightarrow> json \<Rightarrow> (string \<times> json) list" where
  "setdefault d k v = (if map_of d k = None then d @ [(k, v)] else d)"

text \<open>
  \<open>load_config\<close>. Its argument is what \<open>json.loads(Path(path).read_text(...))\<close> gives: the
  parsed file, or the error of a file that is missing or is not JSON. A value that is not
  a dict has no \<open>setdefault\<close>.
\<close>

definition load_config :: "error + json \<Rightarrow> error + (string \<times> json) list" where
  "load_config file =
     (case file of
        Inl e \<Rightarrow> Inl e
      | Inr (JObj cfg) \<Rightarrow>
          Inr (setdefault
                (setdefault
                  (setdefault
                    (setdefault
                      (setdefault cfg ''title'' (JStr ''Product shortlist''))
                      ''description'' (JStr ''A simple shortlist of products.''))
                    ''intro_paragraphs'' (JList []))
                  ''meta_note'' (JStr []))
                ''products'' (JList []))
      | Inr _ \<Rightarrow> Inl AttributeError)"

definition build_intro :: "(json \<Rightarrow> string) \<Rightarrow> json \<Rightarrow> json \<Rightarrow> error + string" where
  \<open>build_intro repr intro_paragraphs meta_note =
     (case iterate intro_paragraphs of
        Inl e \<Rightarrow> Inl e
      | Inr ps \<Rightarrow>
          Inr (join NL
                (map (\<lambda>p. ''<p>'' @ esc p @ ''</p>'')
                   (filter (\<lambda>p. p \<noteq> []) (map (\<lambda>p. strip (py_str repr p)) ps)) @
                 (if truthy meta_note \<and> strip (py_str repr meta_note) \<noteq> []
                  then [''<p class="meta">'' @ esc (strip (py_str repr meta_note)) @ ''</p>'']
                  else []))))\<close>

text \<open>
  The clock, and \<open>strftime("%Y-%m-%d %H:%M UTC")\<close>. The year is written without padding, as
  the C library does; it has four digits from the year 1000 on.
\<close>

record datetime =
  year :: nat
  month :: nat
  day :: nat
  hour :: nat
  minute :: nat

definition pad2 :: "nat \<Rightarrow> string" where
  "pad2 n = (if n < 10 then ''0'' @ digits n else digits n)"

definition strftime :: "datetime \<Rightarrow> string" where
  "strftime t =
     digits (year t) @ ''-'' @ pad2 (month t) @ ''-'' @ pad2 (day t) @ '' '' @
     pad2 (hour t) @ '':'' @ pad2 (minute t) @ '' UTC''"

text \<open>\<open>card(p, partner_tag) for p in products\<close>, one product after the other.\<close>

fun cards_of ::
  "bool \<Rightarrow> (string \<Rightarrow> bool) \<Rightarrow> outside \<Rightarrow> string \<Rightarrow> product list \<Rightarrow> files \<Rightarrow>
   error + (string list \<times> files)" where
  "cards_of cache accepts out partner_tag [] fs = Inr ([], fs)"
| "cards_of cache accepts out partner_tag (p # ps) fs =
     (case card cache accepts out p partner_tag fs of
        Inl e \<Rightarrow> Inl e
      | Inr (c, fs1) \<Rightarrow>
          (case cards_of cache accepts out partner_tag ps fs1 of
             Inl e \<Rightarrow> Inl e
           | Inr (cs, fs2) \<Rightarrow> Inr (c # cs, fs2)))"

text \<open>The dict of a product, as it goes into \<open>products.json\<close>.\<close>

definition product_json :: "product \<Rightarrow> json" where
  "product_json p =
     JObj [(''asin'', JStr (asin p)), (''name'', JStr (name p)),
           (''description'', JStr (description p)), (''image_url'', JStr (image_url p)),
           (''amazon_url'', JStr (amazon_url p)),
           (''best_for'', JList (map JStr (best_for p)))]"

text \<open>
  \<open>main\<close>: the environment variables, the parsed configuration file, the clock and the
  outside world come in, the files that were written come out. \<open>products.json\<close> holds the
  text of \<open>json.dumps({"products": ..., "updated": ..., "title": ...}, indent=2)\<close>.
\<close>

definition main ::
  "(json \<Rightarrow> string) \<Rightarrow> (string \<Rightarrow> bool) \<Rightarrow> outside \<Rightarrow> (string \<rightharpoonup> string) \<Rightarrow> error + json \<Rightarrow>
   datetime \<Rightarrow> files \<Rightarrow> error + files" where
  "main repr accepts out environ file now fs =
     (let partner_tag = strip (case environ ''AMZ_PARTNER_TAG'' of None \<Rightarrow> [] | Some v \<Rightarrow> v) in
      if partner_tag = []
      then Inl (SystemExit ''Missing AMZ_PARTNER_TAG (set as GitHub Actions secret).'')
      else
       (case load_config file of
          Inl e \<Rightarrow> Inl e
        | Inr cfg \<Rightarrow>
       (case iterate (get cfg ''products'') of
          Inl e \<Rightarrow> Inl e
        | Inr items \<Rightarrow>
       (case normalize_products repr items of
          Inl e \<Rightarrow> Inl e
        | Inr products \<Rightarrow>
       (case cards_of (CACHE_IMAGES environ) accepts out partner_tag products fs of
          Inl e \<Rightarrow> Inl e
        | Inr (cs, fs1) \<Rightarrow>
       (case build_intro repr (get cfg ''intro_paragraphs'') (get cfg ''meta_note'') of
          Inl e \<Rightarrow> Inl e
        | Inr intro \<Rightarrow>
           (let updated = strftime now;
                title = strip (py_str repr (if truthy (get cfg ''title'') then get cfg ''title''
                                            else JStr ''Product shortlist''));
                desc = strip (py_str repr (if truthy (get cfg ''description'')
                                           then get cfg ''description'' else JStr []));
                html = HTML (esc title) (esc desc) (esc title) intro updated (join NL cs)
            in if \<not> write_ok out ''index.html'' \<or> \<not> write_ok out ''products.json''
               then Inl OSError
               else Inr ((fs1(''index.html'' \<mapsto> Text html))
                           (''products.json'' \<mapsto>
                              Json (JObj [(''products'', JList (map product_json products)),
                                          (''updated'', JStr updated),
                                          (''title'', JStr title)]))))))))))"

section \<open>Properties of the string functions\<close>

lemma unicode_ws_nonempty: "w \<in> set unicode_ws \<Longrightarrow> w \<noteq> []"
  by (auto simp: unicode_ws_def)

lemma ws_head_0_iff: "ws_head s = 0 \<longleftrightarrow> (\<forall>w \<in> set unicode_ws. \<not> prefix w s)"
  by (auto simp: ws_head_def find_None_iff find_Some_iff unicode_ws_nonempty split: option.splits)

lemma ws_last_0_iff: "ws_last s = 0 \<longleftrightarrow> (\<forall>w \<in> set unicode_ws. \<not> suffix w s)"
  by (auto simp: ws_last_def find_None_iff find_Some_iff unicode_ws_nonempty split: option.splits)

lemma ws_head_lstrip: "ws_head (lstrip s) = 0"
  by (induction s rule: lstrip.induct) (subst lstrip.simps, simp)

lemma ws_last_rstrip: "ws_last (rstrip s) = 0"
  by (induction s rule: rstrip.induct) (subst rstrip.simps, simp)

lemma prefix_rstrip: "prefix (rstrip s) s"
proof (induction s rule: rstrip.induct)
  case (1 s)
  show ?case
  proof (cases "ws_last s = 0")
    case True
    then show ?thesis by (subst rstrip.simps) simp
  next
    case False
    with 1 have "prefix (rstrip (take (length s - ws_last s) s)) (take (length s - ws_last s) s)"
      by simp
    then have "prefix (rstrip (take (length s - ws_last s) s)) s"
      using take_is_prefix prefix_order.trans by blast
    with False show ?thesis by (subst rstrip.simps) simp
  qed
qed

lemma ws_head_strip: "ws_head (strip s) = 0"
proof -
  have "\<forall>w \<in> set unicode_ws. \<not> prefix w (lstrip s)"
    using ws_head_lstrip [of s] by (simp add: ws_head_0_iff)
  then have "\<forall>w \<in> set unicode_ws. \<not> prefix w (rstrip (lstrip s))"
    using prefix_rstrip [of "lstrip s"] prefix_order.trans by blast
  then show ?thesis by (simp add: ws_head_0_iff strip_def)
qed

lemma lstrip_id: "ws_head s = 0 \<Longrightarrow> lstrip s = s"
  by (subst lstrip.simps) simp

lemma rstrip_id: "ws_last s = 0 \<Longrightarrow> rstrip s = s"
  by (subst rstrip.simps) simp

lemma strip_strip: "strip (strip s) = strip s"
proof -
  have "lstrip (strip s) = strip s" by (rule lstrip_id [OF ws_head_strip])
  moreover have "rstrip (strip s) = strip s"
    unfolding strip_def by (rule rstrip_id [OF ws_last_rstrip])
  ultimately show ?thesis by (simp add: strip_def)
qed

lemma strip_Nil: "strip [] = []"
  by (simp add: strip_def lstrip_id rstrip_id ws_head_def ws_last_def unicode_ws_def)

section \<open>Properties of the normaliser\<close>









section \<open>Properties of escaping and of the tag row\<close>

lemma set_replace_char:
  "set (replace_char c r s) = (set s - {c}) \<union> (if c \<in> set s then set r else {})"
  by (induction s) (auto simp: replace_char_def)

lemma esc_no_lt: "CHR ''<'' \<notin> set (esc s)"
  by (auto simp: esc_def set_replace_char split: if_splits)

lemma esc_no_gt: "CHR ''>'' \<notin> set (esc s)"
  by (auto simp: esc_def set_replace_char split: if_splits)

lemma esc_no_dquote: "CHR 0x22 \<notin> set (esc s)"
  by (auto simp: esc_def set_replace_char split: if_splits)

lemma esc_no_squote: "CHR 0x27 \<notin> set (esc s)"
  by (auto simp: esc_def set_replace_char split: if_splits)

lemma occurrences_skip:
  "c \<notin> set s \<Longrightarrow> occurrences (c # p) (s @ r) = occurrences (c # p) r"
  by (induction s) auto

lemma occurrences_pills:
  \<open>occurrences ''<span class="tag">''
     (concat (map (\<lambda>t. ''<span class="tag">'' @ esc t @ ''</span>'') ts) @ r) =
   length ts + occurrences ''<span class="tag">'' r\<close>
proof (induction ts)
  case Nil
  then show ?case by simp
next
  case (Cons t ts)
  have \<open>occurrences ''<span class="tag">'' (esc t @ ''</span>'' @ r') =
        occurrences ''<span class="tag">'' r'\<close> for r'
    by (simp add: occurrences_skip [OF esc_no_lt])
  with Cons show ?case by simp
qed

lemma occurrences_tags_html:
  \<open>occurrences ''<span class="tag">'' (tags_html tags) = min 2 (length tags)\<close>
proof (cases "tags = []")
  case True
  then show ?thesis by (simp add: tags_html_def)
next
  case False
  have \<open>occurrences ''<span class="tag">'' (tags_html tags) =
        occurrences ''<span class="tag">''
          (concat (map (\<lambda>t. ''<span class="tag">'' @ esc t @ ''</span>'') (take 2 tags)) @ ''</div>'')\<close>
    using False by (simp add: tags_html_def)
  also have "\<dots> = length (take 2 tags)"
    by (simp only: occurrences_pills) simp
  finally show ?thesis by (simp add: min.commute)
qed

section \<open>Emitted products\<close>

lemma or_strip_Inr:
  "or_strip v [] = Inr a \<Longrightarrow> a = (case v of JStr s \<Rightarrow> strip s | _ \<Rightarrow> [])"
  by (cases v) (auto simp: or_strip_def strip_Nil split: if_splits)

lemma normalize_loop_elems:
  "normalize_loop repr items out seen = Inr out' \<Longrightarrow> p \<in> set out' \<Longrightarrow>
   p \<in> set out \<or>
   (\<exists>it. JObj it \<in> set items \<and> or_strip (get it ''amazon_asin'') [] = Inr (asin p) \<and>
      make_product repr it (asin p) = Inr p)"
proof (induction repr items out seen rule: normalize_loop.induct)
  case (1 repr out seen)
  then show ?case by simp
next
  case (2 repr it items out seen)
  from "2.prems"(1) obtain a where a: "or_strip (get it ''amazon_asin'') [] = Inr a"
    by (auto split: sum.splits)
  show ?case
  proof (cases "a = [] \<or> a \<in> seen")
    case True
    with "2.IH"(1) [OF a True] "2.prems" a show ?thesis by auto
  next
    case False
    with "2.prems"(1) a obtain q where q: "make_product repr it a = Inr q"
      by (auto split: sum.splits)
    from q have aq: "asin q = a"
      by (auto simp: make_product_def split: sum.splits)
    from "2.prems"(1) a False q
    have "normalize_loop repr items (out @ [q]) (insert a seen) = Inr out'" by simp
    from "2.IH"(2) [OF a False q this "2.prems"(2)] a q aq show ?thesis by auto
  qed
qed simp_all

lemma normalize_products_elems:
  assumes "normalize_products repr items = Inr out" "p \<in> set out"
  shows "\<exists>it. JObj it \<in> set items \<and> trimmed_asin (JObj it) = asin p \<and>
           make_product repr it (asin p) = Inr p"
proof -
  from normalize_loop_elems [of repr items "[]" "{}" out p] assms
  obtain it where it: "JObj it \<in> set items" "or_strip (get it ''amazon_asin'') [] = Inr (asin p)"
    "make_product repr it (asin p) = Inr p"
    by (auto simp: normalize_products_def)
  from or_strip_Inr [OF it(2)] have "trimmed_asin (JObj it) = asin p"
    by (simp add: trimmed_asin_def)
  with it show ?thesis by blast
qed

lemma make_product_name:
  assumes "make_product repr it a = Inr p"
  shows "name p = (case get it ''product_name'' of
           JStr s \<Rightarrow> if strip s = [] then ''Product'' else strip s | _ \<Rightarrow> ''Product'')"
proof -
  from assms obtain n where n: "or_strip (get it ''product_name'') [] = Inr n"
    and p: "name p = (if n = [] then ''Product'' else n)"
    by (auto simp: make_product_def split: sum.splits)
  from or_strip_Inr [OF n] p show ?thesis
    by (cases "get it ''product_name''") auto
qed

lemma make_product_best_for:
  assumes "make_product repr it a = Inr p"
  shows "best_for p = best_for_tags repr (best_for_items (get it ''best_for''))"
  using assms by (auto simp: make_product_def split: sum.splits)

lemma best_for_tags_items:
  "best_for_tags repr (best_for_items v) =
   take 2 (filter (\<lambda>s. s \<noteq> []) (map (\<lambda>x. strip (py_str repr x))
     (case v of JStr s \<Rightarrow> [JStr s] | JList xs \<Rightarrow> xs | _ \<Rightarrow> [])))"
  by (cases v) (auto simp: best_for_tags_def best_for_items_def strip_Nil)

lemma best_for_tags_trimmed:
  "t \<in> set (best_for_tags repr xs) \<Longrightarrow> t \<noteq> [] \<and> strip t = t"
  by (auto simp: best_for_tags_def strip_strip dest!: in_set_takeD)

text \<open>
  C10. Every product emitted by \<open>normalize_products\<close> has a non-empty \<open>name\<close>: it is the
  trimmed \<open>product_name\<close> of its record, and the default "Product" when that field is absent,
  empty or only whitespace.
\<close>

theorem name_never_empty:
  assumes "normalize_products repr items = Inr out" "p \<in> set out"
  shows "name p \<noteq> [] \<and>
    (\<exists>it. JObj it \<in> set items \<and> trimmed_asin (JObj it) = asin p \<and>
       name p = (case get it ''product_name'' of
                   JStr s \<Rightarrow> if strip s = [] then ''Product'' else strip s
                 | _ \<Rightarrow> ''Product''))"
proof -
  from normalize_products_elems [OF assms] obtain it where it: "JObj it \<in> set items"
    "trimmed_asin (JObj it) = asin p" "make_product repr it (asin p) = Inr p" by blast
  note n = make_product_name [OF it(3)]
  have "name p \<noteq> []" unfolding n by (cases "get it ''product_name''") auto
  with it n show ?thesis by blast
qed


theorem name_never_empty_witness:
  "normalize_products (\<lambda>v. [])
     [JObj [(''amazon_asin'', JStr ''B1''), (''product_name'', JStr [CHR 0x20, CHR 0x09])]] =
     Inr [\<lparr>asin = ''B1'', name = ''Product'', description = [], image_url = [],
            amazon_url = ''https://www.amazon.com/dp/B1'', best_for = []\<rparr>] \<and>
   name \<lparr>asin = ''B1'', name = ''Product'', description = [], image_url = [],
            amazon_url = ''https://www.amazon.com/dp/B1'', best_for = []\<rparr> \<noteq> []"
proof -
  let ?p = "\<lparr>asin = ''B1'', name = ''Product'', description = [], image_url = [],
            amazon_url = ''https://www.amazon.com/dp/B1'', best_for = []\<rparr>"
  have e: "normalize_products (\<lambda>v. [])
     [JObj [(''amazon_asin'', JStr ''B1''), (''product_name'', JStr [CHR 0x20, CHR 0x09])]] = Inr [?p]"
    by code_simp
  from name_never_empty [OF e, of ?p] e show ?thesis by simp
qed

text \<open>
  C7. The normalised \<open>best_for\<close> of every emitted product has at most 2 elements: a single
  string counts as a one-element list, a value that is not a list as the empty list; each
  element is converted with \<open>str\<close> and trimmed, the empty ones are dropped and the first 2 of
  the rest are kept. The tag row shows \<open>min 2 n\<close> pills for \<open>n\<close> tags and is empty exactly
  when there is no tag.
\<close>

theorem best_for_at_most_two:
  assumes "normalize_products repr items = Inr out" "p \<in> set out"
  shows \<open>length (best_for p) \<le> 2 \<and>
    (\<forall>t \<in> set (best_for p). t \<noteq> [] \<and> strip t = t) \<and>
    (\<exists>it. JObj it \<in> set items \<and> trimmed_asin (JObj it) = asin p \<and>
       best_for p = take 2 (filter (\<lambda>s. s \<noteq> []) (map (\<lambda>x. strip (py_str repr x))
         (case get it ''best_for'' of JStr s \<Rightarrow> [JStr s] | JList xs \<Rightarrow> xs | _ \<Rightarrow> [])))) \<and>
    occurrences ''<span class="tag">'' (tags_html tags) = min 2 (length tags) \<and>
    (tags_html tags = [] \<longleftrightarrow> tags = [])\<close>
proof -
  from normalize_products_elems [OF assms] obtain it where it: "JObj it \<in> set items"
    "trimmed_asin (JObj it) = asin p" "make_product repr it (asin p) = Inr p" by blast
  note b = make_product_best_for [OF it(3)]
  have 1: "length (best_for p) \<le> 2" by (simp add: b best_for_tags_def)
  have 2: "\<forall>t \<in> set (best_for p). t \<noteq> [] \<and> strip t = t"
    using best_for_tags_trimmed b by metis
  have 3: "best_for p = take 2 (filter (\<lambda>s. s \<noteq> []) (map (\<lambda>x. strip (py_str repr x))
         (case get it ''best_for'' of JStr s \<Rightarrow> [JStr s] | JList xs \<Rightarrow> xs | _ \<Rightarrow> [])))"
    by (simp only: b best_for_tags_items)
  have 4: "tags_html tags = [] \<longleftrightarrow> tags = []" by (simp add: tags_html_def)
  from 1 2 3 4 it occurrences_tags_html show ?thesis by blast
qed


theorem best_for_at_most_two_witness:
  \<open>normalize_products (\<lambda>v. [])
     [JObj [(''amazon_asin'', JStr ''B1''),
            (''best_for'', JList [JStr '' Home'', JStr [], JStr ''Office'', JStr ''Extra''])]] =
     Inr [\<lparr>asin = ''B1'', name = ''Product'', description = [], image_url = [],
            amazon_url = ''https://www.amazon.com/dp/B1'', best_for = [''Home'', ''Office'']\<rparr>] \<and>
   length (best_for \<lparr>asin = ''B1'', name = ''Product'', description = [], image_url = [],
            amazon_url = ''https://www.amazon.com/dp/B1'', best_for = [''Home'', ''Office'']\<rparr>) \<le> 2 \<and>
   occurrences ''<span class="tag">'' (tags_html [''Home'', ''Office'', ''Extra'']) = 2\<close>
proof -
  let ?p = "\<lparr>asin = ''B1'', name = ''Product'', description = [], image_url = [],
            amazon_url = ''https://www.amazon.com/dp/B1'', best_for = [''Home'', ''Office'']\<rparr>"
  have e: "normalize_products (\<lambda>v. [])
     [JObj [(''amazon_asin'', JStr ''B1''),
            (''best_for'', JList [JStr '' Home'', JStr [], JStr ''Office'', JStr ''Extra''])]] = Inr [?p]"
    by code_simp
  from best_for_at_most_two [OF e, of ?p "[''Home'', ''Office'', ''Extra'']"] e show ?thesis by simp
qed

text \<open>
  C9. Image caching is on exactly when the variable \<open>CACHE_IMAGES\<close> is set and its value,
  trimmed, is one of "1", "true", "TRUE", "yes", "YES". It is off when the variable is unset
  and for the mixed-case spellings "True" and "Yes".
\<close>

theorem cache_flag_values:
  "(CACHE_IMAGES environ \<longleftrightarrow>
      (\<exists>v. environ ''CACHE_IMAGES'' = Some v \<and> strip v \<in> {''1'', ''true'', ''TRUE'', ''yes'', ''YES''})) \<and>
   \<not> CACHE_IMAGES Map.empty \<and>
   \<not> CACHE_IMAGES [''CACHE_IMAGES'' \<mapsto> ''True''] \<and>
   \<not> CACHE_IMAGES [''CACHE_IMAGES'' \<mapsto> ''Yes''] \<and>
   CACHE_IMAGES [''CACHE_IMAGES'' \<mapsto> '' yes '']"
proof -
  have 0: "strip ''0'' = ''0''" by code_simp
  have 1: "strip ''True'' = ''True''" by code_simp
  have 2: "strip ''Yes'' = ''Yes''" by code_simp
  have 3: "strip '' yes '' = ''yes''" by code_simp
  show ?thesis
    by (auto simp: CACHE_IMAGES_def 0 1 2 3 split: option.splits)
qed

section \<open>Properties of the image cache\<close>









text \<open>
  C4. For the empty URL \<open>cache_image\<close> returns the placeholder path at once, whatever the
  outside world answers: no directory is made, nothing is fetched, no file is written. For
  every asin and every non-empty remote URL, when the GET is attempted (the images directory
  could be made) and fails, by raising, by a status other than 200 or by an empty body,
  \<open>cache_image\<close> returns the remote URL as it is, raises nothing and writes no file.
\<close>

theorem cache_image_fetch_failure:
  "cache_image out a [] fs = Inr (PLACEHOLDER, fs) \<and>
   (remote_url \<noteq> [] \<and> mkdir_ok out IMG_DIR \<and> fetch_failed (http_get out remote_url) \<longrightarrow>
      cache_image out a remote_url fs = Inr (remote_url, fs))"
  by (auto simp: cache_image_def fetch_failed_def split: option.splits)

theorem cache_image_fetch_failure_witness:
  "cache_image \<lparr>http_get = (\<lambda>u. None), mkdir_ok = (\<lambda>d. False), write_ok = (\<lambda>f. False)\<rparr>
     ''B001'' [] Map.empty = Inr (PLACEHOLDER, Map.empty) \<and>
   ''http://x/a.png'' \<noteq> [] \<and>
   mkdir_ok \<lparr>http_get = (\<lambda>u. None), mkdir_ok = (\<lambda>d. True), write_ok = (\<lambda>f. True)\<rparr> IMG_DIR \<and>
   fetch_failed (http_get \<lparr>http_get = (\<lambda>u. None), mkdir_ok = (\<lambda>d. True), write_ok = (\<lambda>f. True)\<rparr>
     ''http://x/a.png'') \<and>
   cache_image \<lparr>http_get = (\<lambda>u. None), mkdir_ok = (\<lambda>d. True), write_ok = (\<lambda>f. True)\<rparr>
     ''B001'' ''http://x/a.png'' Map.empty = Inr (''http://x/a.png'', Map.empty) \<and>
   fetch_failed (Some \<lparr>status_code = 404, content = ''no'', content_type = None\<rparr>) \<and>
   cache_image \<lparr>http_get = (\<lambda>u. Some \<lparr>status_code = 404, content = ''no'', content_type = None\<rparr>),
                mkdir_ok = (\<lambda>d. True), write_ok = (\<lambda>f. True)\<rparr>
     ''B001'' ''http://x/a.png'' Map.empty = Inr (''http://x/a.png'', Map.empty) \<and>
   fetch_failed (Some \<lparr>status_code = 200, content = [], content_type = Some ''image/png''\<rparr>) \<and>
   cache_image \<lparr>http_get = (\<lambda>u. Some \<lparr>status_code = 200, content = [], content_type = Some ''image/png''\<rparr>),
                mkdir_ok = (\<lambda>d. True), write_ok = (\<lambda>f. True)\<rparr>
     ''B001'' ''http://x/a.png'' Map.empty = Inr (''http://x/a.png'', Map.empty)"
proof -
  let ?o0 = "\<lparr>http_get = (\<lambda>u. None), mkdir_ok = (\<lambda>d. False), write_ok = (\<lambda>f. False)\<rparr>"
  let ?o1 = "\<lparr>http_get = (\<lambda>u. None), mkdir_ok = (\<lambda>d. True), write_ok = (\<lambda>f. True)\<rparr>"
  let ?o2 = "\<lparr>http_get = (\<lambda>u. Some \<lparr>status_code = 404, content = ''no'', content_type = None\<rparr>),
                mkdir_ok = (\<lambda>d. True), write_ok = (\<lambda>f. True)\<rparr>"
  let ?o3 = "\<lparr>http_get = (\<lambda>u. Some \<lparr>status_code = 200, content = [], content_type = Some ''image/png''\<rparr>),
                mkdir_ok = (\<lambda>d. True), write_ok = (\<lambda>f. True)\<rparr>"
  from cache_image_fetch_failure [of ?o0 "''B001''" Map.empty "''http://x/a.png''"]
    cache_image_fetch_failure [of ?o1 "''B001''" Map.empty "''http://x/a.png''"]
    cache_image_fetch_failure [of ?o2 "''B001''" Map.empty "''http://x/a.png''"]
    cache_image_fetch_failure [of ?o3 "''B001''" Map.empty "''http://x/a.png''"]
  show ?thesis
    by (simp add: fetch_failed_def)
qed




section \<open>The example card\<close>

text \<open>
  C5. The record \<open>{amazon_asin: "B001", product_name: "Widget", image_url: "", best_for:
  ["Home", "Office", "Extra"]}\<close> with partner tag \<open>tag123\<close> and caching off gives a card with
  the name Widget, the two pills Home and Office, the placeholder as image source and the
  link \<open>https://www.amazon.com/dp/B001?tag=tag123\<close>.
\<close>

theorem example_card:
  \<open>normalize_products repr
     [JObj [(''amazon_asin'', JStr ''B001''), (''product_name'', JStr ''Widget''),
            (''image_url'', JStr []),
            (''best_for'', JList [JStr ''Home'', JStr ''Office'', JStr ''Extra''])]] =
     Inr [\<lparr>asin = ''B001'', name = ''Widget'', description = [], image_url = [],
            amazon_url = ''https://www.amazon.com/dp/B001'',
            best_for = [''Home'', ''Office'']\<rparr>] \<and>
   card False accepts out
     \<lparr>asin = ''B001'', name = ''Widget'', description = [], image_url = [],
      amazon_url = ''https://www.amazon.com/dp/B001'', best_for = [''Home'', ''Office'']\<rparr>
     ''tag123'' fs =
     Inr (''<div class="card">'' @
          ''  <div class="img"><img src="assets/placeholder.svg" alt="Widget" loading="lazy" '' @
          ''referrerpolicy="no-referrer" onerror="this.onerror=null;this.src='' @ [CHR 0x27] @
          ''assets/placeholder.svg'' @ [CHR 0x27] @ '';"></div>'' @
          ''  <div class="content">'' @
          ''    <p class="name">Widget</p>'' @
          ''    <div class="tags"><span class="tag">Home</span><span class="tag">Office</span></div>'' @
          ''    <p class="desc"></p>'' @
          ''    <div class="actions">'' @
          ''      <a class="btn" href="https://www.amazon.com/dp/B001?tag=tag123" '' @
          ''rel="nofollow sponsored">Check price on Amazon</a>'' @
          ''    </div>'' @
          ''  </div>'' @
          ''</div>'', fs)\<close>
proof -
  have s: "strip ''B001'' = ''B001''" "strip ''Widget'' = ''Widget''" "strip ''Home'' = ''Home''"
    "strip ''Office'' = ''Office''" "strip ''Extra'' = ''Extra''"
    "strip ''https://www.amazon.com/dp/B001'' = ''https://www.amazon.com/dp/B001''"
    by code_simp+
  have n: "normalize_products repr
     [JObj [(''amazon_asin'', JStr ''B001''), (''product_name'', JStr ''Widget''),
            (''image_url'', JStr []),
            (''best_for'', JList [JStr ''Home'', JStr ''Office'', JStr ''Extra''])]] =
     Inr [\<lparr>asin = ''B001'', name = ''Widget'', description = [], image_url = [],
            amazon_url = ''https://www.amazon.com/dp/B001'',
            best_for = [''Home'', ''Office'']\<rparr>]"
    by (simp add: normalize_products_def or_strip_def get_def make_product_def s strip_Nil
        best_for_tags_def best_for_items_def)
  have u: "urlparse accepts ''https://www.amazon.com/dp/B001'' =
     Inr \<lparr>scheme = ''https'', netloc = ''www.amazon.com'', path = ''/dp/B001'', params = [],
          query = [], fragment = []\<rparr>"
    by (simp add: urlparse_def urlsplit_def split_scheme_def splitnetloc_def before_def after_def
        netloc_checked_def scheme_chars_def ascii_lowercase_def ascii_upper_def lower_char_def
        uses_params_def Let_def)
  have q: "urlencode (dict_set (dict_of (parse_qsl [])) ''tag'' ''tag123'') = ''tag=tag123''"
    by code_simp
  have w: "with_affiliate_tag accepts ''https://www.amazon.com/dp/B001'' ''tag123'' =
     Inr ''https://www.amazon.com/dp/B001?tag=tag123''"
    by (simp add: with_affiliate_tag_def u q urlunparse_def urlunsplit_def uses_netloc_def)
  have e: "esc ''Widget'' = ''Widget''" "esc ''Home'' = ''Home''" "esc ''Office'' = ''Office''"
    "esc [] = []" "esc ''assets/placeholder.svg'' = ''assets/placeholder.svg''"
    "esc ''https://www.amazon.com/dp/B001?tag=tag123'' = ''https://www.amazon.com/dp/B001?tag=tag123''"
    by (simp_all add: esc_def replace_char_def)
  show ?thesis
    by (simp add: n card_def w e tags_html_def PLACEHOLDER_def)
qed

section \<open>The page without products\<close>



















end
